theory Spec2Isabelle
  imports Complex_Main
begin

section \<open>The trading bot of \<open>src/app.py\<close>\<close>

text \<open>
  The module computes a Relative Strength Index over closing prices, decides to buy or to
  sell from thresholds of the configuration, places limit orders and polls them until
  they close or a time limit passes, and classifies the exceptions of its main loop.

  Numbers: Python computes the prices, averages and the index with floats; the model
  computes them exactly, over the rationals. Rounding is therefore not part of the model,
  and the properties of the index stated below are those that rounding leaves as they
  are: the value on the integer closes of the scenario compared with a threshold far
  from it, and the cases in which a sum of losses is exactly zero.
\<close>

subsection \<open>Exceptions\<close>

text \<open>
  The exception classes of Python that the module names or can raise, with the classes
  on the path to \<open>BaseException\<close>. \<open>mro e\<close> lists the classes an exception of class \<open>e\<close>
  is an instance of; an \<open>except C\<close> clause catches it when \<open>C\<close> is among them.
\<close>

datatype exc_class =
    BaseException | SystemExit | KeyboardInterrupt | Exception
  | ArithmeticError | ZeroDivisionError
  | LookupError | IndexError | KeyError
  | OSError | ConnectionError
  | TypeError
  | ValueError | JSONDecodeError

fun mro :: "exc_class \<Rightarrow> exc_class list" where
  "mro BaseException = [BaseException]"
| "mro SystemExit = [SystemExit, BaseException]"
| "mro KeyboardInterrupt = [KeyboardInterrupt, BaseException]"
| "mro Exception = [Exception, BaseException]"
| "mro ArithmeticError = [ArithmeticError, Exception, BaseException]"
| "mro ZeroDivisionError = [ZeroDivisionError, ArithmeticError, Exception, BaseException]"
| "mro LookupError = [LookupError, Exception, BaseException]"
| "mro IndexError = [IndexError, LookupError, Exception, BaseException]"
| "mro KeyError = [KeyError, LookupError, Exception, BaseException]"
| "mro OSError = [OSError, Exception, BaseException]"
| "mro ConnectionError = [ConnectionError, OSError, Exception, BaseException]"
| "mro TypeError = [TypeError, Exception, BaseException]"
| "mro ValueError = [ValueError, Exception, BaseException]"
| "mro JSONDecodeError = [JSONDecodeError, ValueError, Exception, BaseException]"

definition isinstance :: "exc_class \<Rightarrow> exc_class \<Rightarrow> bool" where
  "isinstance e c = (c \<in> set (mro e))"

text \<open>Division raises \<open>ZeroDivisionError\<close> when the divisor is zero.\<close>

definition py_div :: "rat \<Rightarrow> rat \<Rightarrow> exc_class + rat" where
  "py_div a b = (if b = 0 then Inl ZeroDivisionError else Inr (a / b))"

subsection \<open>The Relative Strength Index (\<open>calculate_RSI\<close>, lines 152 to 193)\<close>

text \<open>
  The first loop: \<open>for i in closing_prices\<close> with the counter \<open>count\<close>, appending
  \<open>i - closing_prices[count - 1]\<close> when \<open>count != 0\<close>, and leaving the loop when the
  counter reaches 15. The second argument is the part of the list still to be visited.
  The result is the list \<open>change\<close> and the counter after the loop.
\<close>

fun price_changes :: "rat list \<Rightarrow> rat list \<Rightarrow> nat \<Rightarrow> rat list \<Rightarrow> rat list \<times> nat" where
  "price_changes closing_prices [] count change = (change, count)"
| "price_changes closing_prices (i # rest) count change =
     (let change' = (if count \<noteq> 0 then change @ [i - closing_prices ! (count - 1)] else change);
          count' = count + 1
      in if count' = 15 then (change', count')
         else price_changes closing_prices rest count' change')"

text \<open>The lists \<open>advances\<close> and \<open>declines\<close> built from \<open>change\<close> (lines 163 to 169).\<close>

definition advances_of :: "rat list \<Rightarrow> rat list" where
  "advances_of change = filter (\<lambda>i. i > 0) change"

definition declines_of :: "rat list \<Rightarrow> rat list" where
  "declines_of change = map abs (filter (\<lambda>i. i < 0) change)"

text \<open>
  The second loop (lines 174 to 186): one iteration for every element of
  \<open>closing_prices\<close>, the element itself unused; the body runs only while
  \<open>14 < count < len(closing_prices)\<close>. The second argument is the part of the list still
  to be visited; the result is \<open>(new_avg_gain, new_avg_loss)\<close>.
\<close>

fun smoothing :: "rat list \<Rightarrow> rat list \<Rightarrow> nat \<Rightarrow> rat \<Rightarrow> rat \<Rightarrow> rat \<times> rat" where
  "smoothing closing_prices [] count new_avg_gain new_avg_loss = (new_avg_gain, new_avg_loss)"
| "smoothing closing_prices (_ # rest) count new_avg_gain new_avg_loss =
     (if 14 < count \<and> count < length closing_prices then
        (let close = closing_prices ! count;
             new_change = close - closing_prices ! (count - 1);
             add_gain = (if new_change > 0 then new_change else 0);
             add_loss = (if new_change < 0 then abs new_change else 0)
         in smoothing closing_prices rest (count + 1)
              ((new_avg_gain * 13 + add_gain) / 14) ((new_avg_loss * 13 + add_loss) / 14))
      else smoothing closing_prices rest count new_avg_gain new_avg_loss)"

text \<open>
  Lines 153 to 186 of \<open>calculate_RSI\<close>, after the closing prices have been fetched:
  the pair \<open>(new_avg_gain, new_avg_loss)\<close> when the second loop has ended. The divisions
  by the constant 14 cannot fail.
\<close>

definition final_averages :: "rat list \<Rightarrow> rat \<times> rat" where
  "final_averages closing_prices =
     (let (change, count) = price_changes closing_prices closing_prices 0 [];
          average_gain = sum_list (advances_of change) / 14;
          average_loss = sum_list (declines_of change) / 14
      in smoothing closing_prices closing_prices count average_gain average_loss)"

text \<open>
  Lines 188 to 193. \<open>Inr None\<close> is Python's \<open>None\<close>, returned when the final average loss
  is zero; \<open>Inl\<close> is an exception raised by one of the two divisions.
\<close>

definition rsi_of_closing_prices :: "rat list \<Rightarrow> exc_class + rat option" where
  "rsi_of_closing_prices closing_prices =
     (let (new_avg_gain, new_avg_loss) = final_averages closing_prices
      in if new_avg_loss = 0 then Inr None
         else (case py_div new_avg_gain new_avg_loss of
                 Inl e \<Rightarrow> Inl e
               | Inr rs \<Rightarrow>
                   (case py_div 100 (1 + rs) of
                      Inl e \<Rightarrow> Inl e
                    | Inr q \<Rightarrow> (let new_rs = 100 - q in Inr (Some new_rs)))))"

subsection \<open>Configuration (\<open>trade_params\<close>, lines 43 to 45)\<close>

text \<open>
  \<open>buy_params\<close> and \<open>sell_params\<close> are dictionaries read from the secrets file. The model
  takes a configuration that holds every key the code reads, so a lookup never raises.
\<close>

record buy_parameters =
  btcAmount :: rat
  buy_rsiThreshold :: rat
  buy_24HourVolumeThreshold :: rat
  minimumUnitPrice :: rat

record sell_parameters =
  sell_rsiThreshold :: rat
  minProfitMarginThreshold :: rat
  profitMarginThreshold :: rat

subsection \<open>The signal policy (lines 284 to 293)\<close>

text \<open>
  \<open>check_buy_parameters\<close>: a chain of \<open>and\<close>, evaluated left to right and stopping at the
  first false operand. \<open>day_volume\<close> and \<open>current_buy_price\<close> are \<open>None\<close> when the market
  summary could not be fetched (lines 88 to 90 and 109 to 111); comparing \<open>None\<close> with a
  number raises \<open>TypeError\<close>.
\<close>

definition check_buy_parameters ::
  "buy_parameters \<Rightarrow> rat option \<Rightarrow> rat option \<Rightarrow> rat option \<Rightarrow> exc_class + bool" where
  "check_buy_parameters bp rsi day_volume current_buy_price =
     (case rsi of
        None \<Rightarrow> Inr False
      | Some r \<Rightarrow>
          if \<not> r \<le> buy_rsiThreshold bp then Inr False
          else (case day_volume of
                  None \<Rightarrow> Inl TypeError
                | Some v \<Rightarrow>
                    if \<not> v \<ge> buy_24HourVolumeThreshold bp then Inr False
                    else (case current_buy_price of
                            None \<Rightarrow> Inl TypeError
                          | Some p \<Rightarrow> Inr (p > minimumUnitPrice bp))))"

text \<open>\<open>check_sell_parameters\<close>: the profit margin is a number, the index may be \<open>None\<close>.\<close>

definition check_sell_parameters :: "sell_parameters \<Rightarrow> rat option \<Rightarrow> rat \<Rightarrow> bool" where
  "check_sell_parameters sp rsi profit_margin =
     ((case rsi of
         None \<Rightarrow> False
       | Some r \<Rightarrow> r \<ge> sell_rsiThreshold sp \<and> profit_margin > minProfitMarginThreshold sp)
      \<or> profit_margin > profitMarginThreshold sp)"

subsection \<open>The collaborators and the state of the world\<close>

text \<open>
  The values the exchange client returns, with the fields the module reads:
  a candle of the price history (\<open>i["C"]\<close>), a market summary (\<open>coin_summary["success"]\<close>
  and \<open>coin_summary["result"][0]\<close>), the answer to an order placement (\<open>buy_data["success"]\<close>,
  \<open>buy_data["result"]["uuid"]\<close>) and an order snapshot (\<open>order_data["result"]\<close>).
  Answers are taken to have these fields.
\<close>

record candle =
  C :: rat

record summary =
  summary_success :: bool
  Ask :: rat
  Bid :: rat
  Last :: rat
  BaseVolume :: rat

record placement =
  success :: bool
  uuid :: string

record order_snapshot =
  IsOpen :: bool
  Exchange :: string
  Quantity :: rat

text \<open>The \<open>stats\<close> dictionaries built in \<open>buy_strategy\<close> and \<open>sell_strategy\<close>.\<close>

record buy_stats =
  stats_rsi :: "rat option"
  stats_24HrVolume :: "rat option"

record sell_stats =
  sell_stats_rsi :: "rat option"
  stats_profitMargin :: rat

text \<open>
  Modelled from the spec: the class \<open>Database\<close> (\<open>src/database.py\<close>) is missing. An open
  position is, in the spec's words, a record keyed by market symbol; of its fields the
  module reads the quantity (\<open>trade["quantity"]\<close>).
\<close>

record open_trade =
  coinPair :: string
  quantity :: rat

text \<open>
  Modelled from the spec: \<open>Database.trades\<close>, of the missing class \<open>Database\<close>. The module
  reads its list \<open>trackedCoinPairs\<close>; the open positions are the ledger of the spec.
\<close>

record trades =
  trackedCoinPairs :: "string list"
  positions :: "open_trade list"

text \<open>Everything the module does to its collaborators, in the order it happens.\<close>

datatype event =
    GetMarketSummary string
  | GetHistoricalData string nat string
  | BuyLimit string rat rat
  | SellLimit string rat "rat option"
  | GetOrder string order_snapshot
  | Cancel string
  | Sleep rat
  | LoggerError string
  | LoggerException exc_class
  | StoreInitialBuy string string
  | StoreBuy order_snapshot buy_stats
  | StoreSell order_snapshot sell_stats
  | GetOpenTrade string
  | SendBuyEmail string rat rat "rat option" "rat option" string
  | PrintBuy string rat "rat option" "rat option"
  | PlaySwImperialMarch
  | SendSellEmail string rat "rat option" "rat option" rat string
  | PrintSell string "rat option" "rat option" rat
  | PlaySwTheme
  | PrintNoBuy string rat "rat option" "rat option"
  | PrintOrderError string rat string
  | PrintExceptionError string

text \<open>
  The world: the clock read by \<open>time.time()\<close>, the trace of events and the ledger held
  by \<open>Database\<close>. The clock is a simulated one: \<open>time.sleep(d)\<close> advances it by \<open>d\<close> and
  nothing else does.
\<close>

record world =
  clock :: rat
  trace :: "event list"
  database :: trades

text \<open>
  The collaborators are parameters: the answers of the exchange may depend on the world
  at the moment of the call; the operations of \<open>Database\<close> and the message built by
  \<open>Messenger.print_order_error\<close> are not in \<open>src/\<close>.
\<close>

record env =
  buy_params :: buy_parameters
  sell_params :: sell_parameters
  tickerInterval :: string
  bittrex_get_market_summary :: "world \<Rightarrow> string \<Rightarrow> summary"
  bittrex_get_historical_data :: "world \<Rightarrow> string \<Rightarrow> nat \<Rightarrow> string \<Rightarrow> candle list"
  bittrex_buy_limit :: "world \<Rightarrow> string \<Rightarrow> rat \<Rightarrow> rat \<Rightarrow> placement"
  bittrex_sell_limit :: "world \<Rightarrow> string \<Rightarrow> rat \<Rightarrow> rat option \<Rightarrow> placement"
  bittrex_get_order :: "world \<Rightarrow> string \<Rightarrow> order_snapshot"
  database_store_initial_buy :: "string \<Rightarrow> string \<Rightarrow> trades \<Rightarrow> trades"
  database_store_buy :: "order_snapshot \<Rightarrow> buy_stats \<Rightarrow> trades \<Rightarrow> trades"
  database_store_sell :: "order_snapshot \<Rightarrow> sell_stats \<Rightarrow> trades \<Rightarrow> trades"
  database_get_open_trade :: "trades \<Rightarrow> string \<Rightarrow> open_trade"
  messenger_print_order_error :: "string \<Rightarrow> rat \<Rightarrow> string \<Rightarrow> string"

definition emit :: "event \<Rightarrow> world \<Rightarrow> world" where
  "emit e w = w\<lparr>trace := trace w @ [e]\<rparr>"

definition sleep :: "rat \<Rightarrow> world \<Rightarrow> world" where
  "sleep d w = emit (Sleep d) (w\<lparr>clock := clock w + d\<rparr>)"

subsection \<open>Market data (lines 75 to 133) and \<open>calculate_RSI\<close>\<close>

definition get_current_price :: "env \<Rightarrow> string \<Rightarrow> string \<Rightarrow> world \<Rightarrow> rat option \<times> world" where
  "get_current_price env coin_pair price_type w =
     (let coin_summary = bittrex_get_market_summary env w coin_pair;
          w1 = emit (GetMarketSummary coin_pair) w
      in if \<not> summary_success coin_summary then
           (None, emit (LoggerError (''Failed to fetch Bittrex market summary for the ''
                                      @ coin_pair @ '' market'')) w1)
         else if price_type = ''ask'' then (Some (Ask coin_summary), w1)
         else if price_type = ''bid'' then (Some (Bid coin_summary), w1)
         else (Some (Last coin_summary), w1))"

definition get_current_24hr_volume :: "env \<Rightarrow> string \<Rightarrow> world \<Rightarrow> rat option \<times> world" where
  "get_current_24hr_volume env coin_pair w =
     (let coin_summary = bittrex_get_market_summary env w coin_pair;
          w1 = emit (GetMarketSummary coin_pair) w
      in if \<not> summary_success coin_summary then
           (None, emit (LoggerError (''Failed to fetch Bittrex market summary for the ''
                                      @ coin_pair @ '' market'')) w1)
         else (Some (BaseVolume coin_summary), w1))"

definition get_closing_prices :: "env \<Rightarrow> string \<Rightarrow> nat \<Rightarrow> string \<Rightarrow> world \<Rightarrow> rat list \<times> world" where
  "get_closing_prices env coin_pair period unit w =
     (let historical_data = bittrex_get_historical_data env w coin_pair period unit
      in (map C historical_data, emit (GetHistoricalData coin_pair period unit) w))"

definition calculate_RSI ::
  "env \<Rightarrow> string \<Rightarrow> nat \<Rightarrow> string \<Rightarrow> world \<Rightarrow> (exc_class + rat option) \<times> world" where
  "calculate_RSI env coin_pair period unit w =
     (let (closing_prices, w1) = get_closing_prices env coin_pair (period * 3) unit w
      in (rsi_of_closing_prices closing_prices, w1))"

subsection \<open>The order lifecycle (lines 196 to 281)\<close>

text \<open>
  The polling loop of \<open>get_order\<close> (lines 271 to 273). \<open>start_time\<close> is the clock at entry,
  \<open>order_data\<close> the snapshot retrieved last. Each query is recorded in the trace with the
  snapshot it returned.
\<close>

definition query_order :: "env \<Rightarrow> string \<Rightarrow> world \<Rightarrow> order_snapshot \<times> world" where
  "query_order env order_uuid w =
     (let order_data = bittrex_get_order env w order_uuid
      in (order_data, emit (GetOrder order_uuid order_data) w))"

function poll_order ::
  "env \<Rightarrow> string \<Rightarrow> rat \<Rightarrow> rat \<Rightarrow> order_snapshot \<Rightarrow> world \<Rightarrow> order_snapshot \<times> world" where
  "poll_order env order_uuid trade_time_limit start_time order_data w =
     (if clock w - start_time \<le> trade_time_limit \<and> IsOpen order_data then
        (let w1 = sleep 10 w;
             (order_data', w2) = query_order env order_uuid w1
         in poll_order env order_uuid trade_time_limit start_time order_data' w2)
      else (order_data, w))"
  by pat_completeness auto
termination
proof (relation "measure (\<lambda>(env, order_uuid, trade_time_limit, start_time, order_data, w).
                    nat (\<lfloor>trade_time_limit - (clock w - start_time)\<rfloor> + 1))")
  show "wf (measure (\<lambda>(env, order_uuid, trade_time_limit, start_time, order_data, w).
                    nat (\<lfloor>trade_time_limit - (clock w - start_time)\<rfloor> + 1)))"
    by simp
next
  fix env :: env and order_uuid :: string and trade_time_limit start_time :: rat
    and order_data :: order_snapshot and w w1 :: world and x :: "order_snapshot \<times> world"
    and order_data' :: order_snapshot and w2 :: world
  assume run: "clock w - start_time \<le> trade_time_limit \<and> IsOpen order_data"
    and w1: "w1 = sleep 10 w"
    and x: "x = query_order env order_uuid w1"
    and pair: "(order_data', w2) = x"
  have c: "clock w2 = clock w + 10"
    using w1 x pair by (simp add: query_order_def sleep_def emit_def Let_def)
  have "0 \<le> \<lfloor>trade_time_limit - (clock w - start_time)\<rfloor>" using run by simp
  moreover have "\<lfloor>trade_time_limit - (clock w2 - start_time)\<rfloor>
                   = \<lfloor>trade_time_limit - (clock w - start_time)\<rfloor> - 10"
  proof -
    have "trade_time_limit - (clock w2 - start_time)
            = trade_time_limit - (clock w - start_time) - of_int 10"
      using c by simp
    then show ?thesis by (simp only: floor_diff_of_int)
  qed
  ultimately show "((env, order_uuid, trade_time_limit, start_time, order_data', w2),
                    (env, order_uuid, trade_time_limit, start_time, order_data, w))
                   \<in> measure (\<lambda>(env, order_uuid, trade_time_limit, start_time, order_data, w).
                        nat (\<lfloor>trade_time_limit - (clock w - start_time)\<rfloor> + 1))"
    by simp
qed

declare poll_order.simps [simp del]

text \<open>\<open>get_order\<close> (lines 269 to 281): the snapshot retrieved last is returned in both branches.\<close>

definition get_order :: "env \<Rightarrow> string \<Rightarrow> rat \<Rightarrow> world \<Rightarrow> order_snapshot \<times> world" where
  "get_order env order_uuid trade_time_limit w =
     (let start_time = clock w;
          (order_data0, w1) = query_order env order_uuid w;
          (order_data, w2) = poll_order env order_uuid trade_time_limit start_time order_data0 w1
      in if IsOpen order_data then
           (let error_str = messenger_print_order_error env order_uuid trade_time_limit
                              (Exchange order_data);
                w3 = emit (PrintOrderError order_uuid trade_time_limit (Exchange order_data)) w2;
                w4 = emit (LoggerError error_str) w3;
                w5 = emit (Cancel order_uuid) w4
            in (order_data, w5))
         else (order_data, w2))"

text \<open>
  \<open>buy\<close> (lines 212 to 223). The quantity \<open>btc_quantity / price\<close> raises \<open>TypeError\<close> when
  the price is \<open>None\<close> and \<open>ZeroDivisionError\<close> when it is zero.
\<close>

definition buy ::
  "env \<Rightarrow> string \<Rightarrow> rat \<Rightarrow> rat option \<Rightarrow> buy_stats \<Rightarrow> rat \<Rightarrow> world \<Rightarrow> (exc_class + unit) \<times> world" where
  "buy env coin_pair btc_quantity price stats trade_time_limit w =
     (case price of
        None \<Rightarrow> (Inl TypeError, w)
      | Some p \<Rightarrow>
          (case py_div btc_quantity p of
             Inl e \<Rightarrow> (Inl e, w)
           | Inr amount \<Rightarrow>
               (let buy_data = bittrex_buy_limit env w coin_pair amount p;
                    w1 = emit (BuyLimit coin_pair amount p) w
                in if \<not> success buy_data then
                     (Inr (), emit (LoggerError (''Failed to buy on '' @ coin_pair @ '' market.'')) w1)
                   else
                     (let w2 = emit (StoreInitialBuy coin_pair (uuid buy_data))
                                 (w1\<lparr>database := database_store_initial_buy env coin_pair
                                                    (uuid buy_data) (database w1)\<rparr>);
                          (buy_order_data, w3) =
                             get_order env (uuid buy_data) (trade_time_limit * 60) w2;
                          w4 = emit (StoreBuy buy_order_data stats)
                                 (w3\<lparr>database := database_store_buy env buy_order_data stats
                                                    (database w3)\<rparr>);
                          w5 = emit (SendBuyEmail coin_pair (Quantity buy_order_data) p
                                       (stats_rsi stats) (stats_24HrVolume stats) ''JP'') w4;
                          w6 = emit (PrintBuy coin_pair p (stats_rsi stats)
                                       (stats_24HrVolume stats)) w5;
                          w7 = emit PlaySwImperialMarch w6
                      in (Inr (), w7)))))"

text \<open>\<open>sell\<close> (lines 240 to 252). The price is only passed on, so \<open>None\<close> raises nothing here.\<close>

definition sell :: "env \<Rightarrow> string \<Rightarrow> rat option \<Rightarrow> sell_stats \<Rightarrow> rat \<Rightarrow> world \<Rightarrow> world" where
  "sell env coin_pair price stats trade_time_limit w =
     (let trade = database_get_open_trade env (database w) coin_pair;
          w1 = emit (GetOpenTrade coin_pair) w;
          sell_data = bittrex_sell_limit env w1 coin_pair (quantity trade) price;
          w2 = emit (SellLimit coin_pair (quantity trade) price) w1
      in if \<not> success sell_data then
           emit (LoggerError (''Failed to sell on '' @ coin_pair @ '' market.'')) w2
         else
           (let (sell_order_data, w3) = get_order env (uuid sell_data) (trade_time_limit * 60) w2;
                w4 = emit (StoreSell sell_order_data stats)
                       (w3\<lparr>database := database_store_sell env sell_order_data stats
                                          (database w3)\<rparr>);
                w5 = emit (SendSellEmail coin_pair (Quantity sell_order_data) price
                             (sell_stats_rsi stats) (stats_profitMargin stats) ''JP'') w4;
                w6 = emit (PrintSell coin_pair price (sell_stats_rsi stats)
                             (stats_profitMargin stats)) w5
            in emit PlaySwTheme w6))"

subsection \<open>The buy path and the main loop (lines 296 to 376)\<close>

text \<open>\<open>buy_strategy\<close>; \<open>buy\<close> is called with its default \<open>trade_time_limit=2\<close>.\<close>

definition buy_strategy :: "env \<Rightarrow> string \<Rightarrow> world \<Rightarrow> (exc_class + unit) \<times> world" where
  "buy_strategy env coin_pair w =
     (if coin_pair \<in> set (trackedCoinPairs (database w)) then (Inr (), w)
      else
        (case calculate_RSI env coin_pair 14 (tickerInterval env) w of
           (Inl e, w1) \<Rightarrow> (Inl e, w1)
         | (Inr rsi, w1) \<Rightarrow>
             (let (day_volume, w2) = get_current_24hr_volume env coin_pair w1;
                  (current_buy_price, w3) = get_current_price env coin_pair ''ask'' w2
              in case check_buy_parameters (buy_params env) rsi day_volume current_buy_price of
                   Inl e \<Rightarrow> (Inl e, w3)
                 | Inr True \<Rightarrow>
                     buy env coin_pair (btcAmount (buy_params env)) current_buy_price
                       \<lparr>stats_rsi = rsi, stats_24HrVolume = day_volume\<rparr> 2 w3
                 | Inr False \<Rightarrow>
                     (case rsi of
                        None \<Rightarrow> (Inr (), w3)
                      | Some r \<Rightarrow>
                          if r \<le> 50 then
                            (Inr (), emit (PrintNoBuy coin_pair r day_volume current_buy_price) w3)
                          else (Inr (), w3)))))"

text \<open>
  \<open>analyse_buys\<close> (lines 331 to 334): the loop over \<open>btc_coin_pairs\<close> ends at the first
  exception, which leaves \<open>analyse_buys\<close>.
\<close>

fun buy_each :: "env \<Rightarrow> string list \<Rightarrow> world \<Rightarrow> (exc_class + unit) \<times> world" where
  "buy_each env [] w = (Inr (), w)"
| "buy_each env (coin_pair # rest) w =
     (case buy_strategy env coin_pair w of
        (Inl e, w1) \<Rightarrow> (Inl e, w1)
      | (Inr _, w1) \<Rightarrow> buy_each env rest w1)"

definition analyse_buys :: "env \<Rightarrow> string list \<Rightarrow> world \<Rightarrow> (exc_class + unit) \<times> world" where
  "analyse_buys env btc_coin_pairs w =
     (if length (trackedCoinPairs (database w)) < 1 then buy_each env btc_coin_pairs w
      else (Inr (), w))"

text \<open>
  One iteration of \<open>while True\<close> (lines 350 to 376). An \<open>except\<close> clause is tried only when
  the clauses before it do not match. \<open>Continue\<close> is the next iteration, \<open>Exit\<close> the call
  of \<open>exit()\<close>, \<open>Uncaught\<close> an exception that no clause catches and that leaves the loop.
  The last clause logs the class \<open>Exception\<close> itself.
\<close>

datatype control = Continue | Exit | Uncaught exc_class

definition handle_exception :: "exc_class \<Rightarrow> world \<Rightarrow> control \<times> world" where
  "handle_exception e w =
     (if isinstance e ConnectionError then
        (Continue, emit (LoggerException e) (emit (PrintExceptionError ''connection'') w))
      else if isinstance e JSONDecodeError then
        (Continue, emit (LoggerException e) (emit (PrintExceptionError ''JSONDecode'') w))
      else if isinstance e TypeError then
        (Continue, emit (LoggerException e) (emit (PrintExceptionError ''typeError'') w))
      else if isinstance e KeyError then
        (Exit, emit (LoggerException e) (emit (PrintExceptionError ''keyError'') w))
      else if isinstance e ValueError then
        (Exit, emit (LoggerException e) (emit (PrintExceptionError ''valueError'') w))
      else if isinstance e Exception then
        (Exit, emit (LoggerException Exception) (emit (PrintExceptionError ''unknown'') w))
      else (Uncaught e, w))"

text \<open>
  The body of the \<open>try\<close> (lines 352 to 354). \<open>analyse_sells\<close> walks the ledger's list while
  \<open>sell_strategy\<close> changes the ledger through \<open>Database.store_sell\<close>, which is not in
  \<open>src/\<close>; it is a parameter here.
\<close>

definition try_block ::
  "env \<Rightarrow> (world \<Rightarrow> (exc_class + unit) \<times> world) \<Rightarrow> string list \<Rightarrow> world
     \<Rightarrow> (exc_class + unit) \<times> world" where
  "try_block env analyse_sells btc_coin_pairs w =
     (case analyse_buys env btc_coin_pairs w of
        (Inl e, w1) \<Rightarrow> (Inl e, w1)
      | (Inr _, w1) \<Rightarrow>
          (case analyse_sells w1 of
             (Inl e, w2) \<Rightarrow> (Inl e, w2)
           | (Inr _, w2) \<Rightarrow> (Inr (), sleep 10 w2)))"

definition main_cycle ::
  "env \<Rightarrow> (world \<Rightarrow> (exc_class + unit) \<times> world) \<Rightarrow> string list \<Rightarrow> world \<Rightarrow> control \<times> world" where
  "main_cycle env analyse_sells btc_coin_pairs w =
     (case try_block env analyse_sells btc_coin_pairs w of
        (Inl e, w1) \<Rightarrow> handle_exception e w1
      | (Inr _, w1) \<Rightarrow> (Continue, w1))"

subsection \<open>Reading a trace\<close>

text \<open>
  The successive deltas of a series, the cancel requests of a trace, the buy orders
  placed in it, and the snapshots the status queries returned, oldest first.
\<close>

definition successive_deltas :: "rat list \<Rightarrow> rat list" where
  "successive_deltas closing_prices =
     map (\<lambda>k. closing_prices ! k - closing_prices ! (k - 1)) [1..<length closing_prices]"

fun cancel_calls :: "event list \<Rightarrow> string list" where
  "cancel_calls [] = []"
| "cancel_calls (Cancel order_uuid # es) = order_uuid # cancel_calls es"
| "cancel_calls (_ # es) = cancel_calls es"

fun buy_orders :: "event list \<Rightarrow> string list" where
  "buy_orders [] = []"
| "buy_orders (BuyLimit coin_pair amount price # es) = coin_pair # buy_orders es"
| "buy_orders (_ # es) = buy_orders es"

fun snapshots :: "event list \<Rightarrow> order_snapshot list" where
  "snapshots [] = []"
| "snapshots (GetOrder order_uuid order_data # es) = order_data # snapshots es"
| "snapshots (_ # es) = snapshots es"

definition last_snapshot :: "event list \<Rightarrow> order_snapshot option" where
  "last_snapshot es = (if snapshots es = [] then None else Some (last (snapshots es)))"

subsection \<open>A simulated exchange and ledger\<close>

text \<open>
  Modelled from the spec: \<open>Database.store_initial_buy\<close> (\<open>src/database.py\<close>) is missing.
  The spec's ledger has \<open>putOpenPosition(market, pos)\<close>; this is the only write of the buy
  path that receives the market, so it enters the market in the ledger.
\<close>

definition store_initial_buy :: "string \<Rightarrow> string \<Rightarrow> trades \<Rightarrow> trades" where
  "store_initial_buy coin_pair order_uuid db =
     db\<lparr>trackedCoinPairs := trackedCoinPairs db @ [coin_pair],
        positions := positions db @ [\<lparr>coinPair = coin_pair, quantity = 0\<rparr>]\<rparr>"

text \<open>
  Modelled from the spec: \<open>Database.store_buy\<close> (\<open>src/database.py\<close>) is missing. The spec
  persists the settled order's quantity in the open position; the market of an order is
  the field \<open>Exchange\<close> of its snapshot.
\<close>

definition store_buy :: "order_snapshot \<Rightarrow> buy_stats \<Rightarrow> trades \<Rightarrow> trades" where
  "store_buy order_data stats db =
     db\<lparr>positions := map (\<lambda>t. if coinPair t = Exchange order_data
                                then t\<lparr>quantity := Quantity order_data\<rparr> else t)
                          (positions db)\<rparr>"

text \<open>
  Modelled from the spec: \<open>Database.store_sell\<close> (\<open>src/database.py\<close>) is missing. The
  spec's \<open>removeOpenPosition(market)\<close>, for the market of the settled sell order.
\<close>

definition store_sell :: "order_snapshot \<Rightarrow> sell_stats \<Rightarrow> trades \<Rightarrow> trades" where
  "store_sell order_data stats db =
     db\<lparr>trackedCoinPairs := filter (\<lambda>c. c \<noteq> Exchange order_data) (trackedCoinPairs db),
        positions := filter (\<lambda>t. coinPair t \<noteq> Exchange order_data) (positions db)\<rparr>"

text \<open>
  Modelled from the spec: \<open>Database.get_open_trade\<close> (\<open>src/database.py\<close>) is missing. The
  spec's \<open>getOpenPosition(market)\<close>; for a market without a position the quantity is 0.
\<close>

definition get_open_trade :: "trades \<Rightarrow> string \<Rightarrow> open_trade" where
  "get_open_trade db coin_pair =
     (case filter (\<lambda>t. coinPair t = coin_pair) (positions db) of
        [] \<Rightarrow> \<lparr>coinPair = coin_pair, quantity = 0\<rparr>
      | t # _ \<Rightarrow> t)"

text \<open>
  A simulated exchange for running the model. Every market has the same falling price
  history (fifteen closes, so the index is 0), the same summary and an order id equal to
  its name; the three switches say whether the summary can be fetched, whether an order
  placement succeeds, and whether a placed order stays open.
\<close>

definition falling_closes :: "rat list" where
  "falling_closes = [15, 14, 13, 12, 11, 10, 9, 8, 7, 6, 5, 4, 3, 2, 1]"

definition sim_env :: "bool \<Rightarrow> bool \<Rightarrow> bool \<Rightarrow> env" where
  "sim_env summary_ok placement_ok stays_open =
     \<lparr>buy_params = \<lparr>btcAmount = 1 / 100, buy_rsiThreshold = 25,
                     buy_24HourVolumeThreshold = 500, minimumUnitPrice = 1 / 10000000\<rparr>,
      sell_params = \<lparr>sell_rsiThreshold = 75, minProfitMarginThreshold = 1,
                      profitMarginThreshold = 5\<rparr>,
      tickerInterval = ''fiveMin'',
      bittrex_get_market_summary = (\<lambda>w coin_pair.
         \<lparr>summary_success = summary_ok, Ask = 1 / 1000, Bid = 1 / 1000, Last = 1 / 1000,
          BaseVolume = 1000\<rparr>),
      bittrex_get_historical_data = (\<lambda>w coin_pair period unit. map (\<lambda>c. \<lparr>C = c\<rparr>) falling_closes),
      bittrex_buy_limit = (\<lambda>w coin_pair amount price. \<lparr>success = placement_ok, uuid = coin_pair\<rparr>),
      bittrex_sell_limit = (\<lambda>w coin_pair amount price. \<lparr>success = placement_ok, uuid = coin_pair\<rparr>),
      bittrex_get_order = (\<lambda>w order_uuid.
         \<lparr>IsOpen = stays_open, Exchange = order_uuid, Quantity = 10\<rparr>),
      database_store_initial_buy = store_initial_buy,
      database_store_buy = store_buy,
      database_store_sell = store_sell,
      database_get_open_trade = get_open_trade,
      messenger_print_order_error = (\<lambda>order_uuid trade_time_limit exchange.
         ''order '' @ order_uuid @ '' timed out'')\<rparr>"

text \<open>Two stand-ins for \<open>analyse_sells\<close>: one finds nothing to sell, one raises.\<close>

definition no_sells :: "world \<Rightarrow> (exc_class + unit) \<times> world" where
  "no_sells w = (Inr (), w)"

definition raising_sells :: "exc_class \<Rightarrow> world \<Rightarrow> (exc_class + unit) \<times> world" where
  "raising_sells e w = (Inl e, w)"

definition empty_world :: world where
  "empty_world = \<lparr>clock = 0, trace = [], database = \<lparr>trackedCoinPairs = [], positions = []\<rparr>\<rparr>"

definition holding_world :: world where
  "holding_world =
     \<lparr>clock = 0, trace = [],
      database = \<lparr>trackedCoinPairs = [''BTC-LTC''],
                  positions = [\<lparr>coinPair = ''BTC-LTC'', quantity = 10\<rparr>]\<rparr>\<rparr>"

subsection \<open>Concrete inputs\<close>

text \<open>The close series and the thresholds of the spec's end-to-end scenario.\<close>

definition scenario_closes :: "rat list" where
  "scenario_closes = [100, 102, 101, 105, 107, 106, 110, 109, 112, 115, 114, 118, 120, 119, 123]"

definition scenario_buy_params :: buy_parameters where
  "scenario_buy_params =
     \<lparr>btcAmount = 1 / 100, buy_rsiThreshold = 75, buy_24HourVolumeThreshold = 500,
      minimumUnitPrice = 1 / 10000000\<rparr>"

text \<open>A series of eighteen closes that never falls.\<close>

definition rising_closes :: "rat list" where
  "rising_closes = [1, 2, 3, 4, 5, 6, 7, 8, 9, 10, 11, 12, 13, 14, 15, 16, 16, 18]"

section \<open>Properties\<close>

subsection \<open>Facts about the index\<close>

lemma price_changes_drop:
  "c < 15 \<Longrightarrow> c \<le> length cp \<Longrightarrow>
   price_changes cp (drop c cp) c ch =
     (ch @ map (\<lambda>k. cp ! k - cp ! (k - 1)) [max 1 c..<min (length cp) 15], min (length cp) 15)"
proof (induction "length cp - c" arbitrary: c ch)
  case 0
  then show ?case by simp
next
  case (Suc n)
  then have lt: "c < length cp" by simp
  then have dr: "drop c cp = cp ! c # drop (Suc c) cp"
    by (simp add: Cons_nth_drop_Suc)
  show ?case
  proof (cases "Suc c = 15")
    case True
    then have c14: "c = 14" by simp
    have "[max 1 c..<min (length cp) 15] = [14]"
      using lt c14 by (simp add: upt_rec)
    then show ?thesis using dr lt c14 by simp
  next
    case False
    then have c': "Suc c < 15" using Suc.prems by simp
    have n: "n = length cp - Suc c" using Suc.hyps by simp
    have le: "Suc c \<le> length cp" using lt by simp
    note IH = Suc.hyps(1)[OF n c' le]
    have up: "[max 1 c..<min (length cp) 15]
                = (if c \<noteq> 0 then [c] else []) @ [max 1 (Suc c)..<min (length cp) 15]"
      using lt c' by (auto simp: upt_rec[of c] max_def)
    show ?thesis using False dr IH up by (simp add: Let_def)
  qed
qed

lemma price_changes_all:
  "price_changes cp cp 0 [] =
     (map (\<lambda>k. cp ! k - cp ! (k - 1)) [1..<min (length cp) 15], min (length cp) 15)"
  using price_changes_drop[of 0 cp "[]"] by simp

lemma final_averages_unfold:
  "final_averages cp =
     smoothing cp cp (min (length cp) 15)
       (sum_list (advances_of (map (\<lambda>k. cp ! k - cp ! (k - 1)) [1..<min (length cp) 15])) / 14)
       (sum_list (declines_of (map (\<lambda>k. cp ! k - cp ! (k - 1)) [1..<min (length cp) 15])) / 14)"
  by (simp add: final_averages_def price_changes_all)

lemma smoothing_step:
  "14 < count \<Longrightarrow> count < length cp \<Longrightarrow>
   smoothing cp (a # its) count g l =
     smoothing cp its (count + 1)
       ((g * 13 + (if cp ! count - cp ! (count - 1) > 0
                   then cp ! count - cp ! (count - 1) else 0)) / 14)
       ((l * 13 + (if cp ! count - cp ! (count - 1) < 0
                   then \<bar>cp ! count - cp ! (count - 1)\<bar> else 0)) / 14)"
  by (simp only: smoothing.simps Let_def simp_thms if_True)

lemma smoothing_skip:
  "\<not> (14 < count \<and> count < length cp) \<Longrightarrow>
   smoothing cp (a # its) count g l = smoothing cp its count g l"
  by (simp only: smoothing.simps if_False)

lemma smoothing_nonneg:
  "0 \<le> g \<Longrightarrow> 0 \<le> l \<Longrightarrow> smoothing cp its count g l = (g', l') \<Longrightarrow> 0 \<le> g' \<and> 0 \<le> l'"
proof (induction its arbitrary: count g l)
  case Nil
  then show ?case by simp
next
  case (Cons a its)
  show ?case
  proof (cases "14 < count \<and> count < length cp")
    case True
    let ?d = "cp ! count - cp ! (count - 1)"
    let ?ag = "if ?d > 0 then ?d else 0"
    let ?al = "if ?d < 0 then \<bar>?d\<bar> else 0"
    have "smoothing cp its (count + 1) ((g * 13 + ?ag) / 14) ((l * 13 + ?al) / 14) = (g', l')"
      using Cons.prems(3) True smoothing_step[of count cp a its g l] by simp
    moreover have "0 \<le> (g * 13 + ?ag) / 14" using Cons.prems(1) by simp
    moreover have "0 \<le> (l * 13 + ?al) / 14" using Cons.prems(2) by simp
    ultimately show ?thesis using Cons.IH by blast
  next
    case False
    then have "smoothing cp its count g l = (g', l')"
      using Cons.prems(3) smoothing_skip[of count cp a its g l] by simp
    then show ?thesis using Cons.IH Cons.prems by blast
  qed
qed

lemma smoothing_no_loss:
  assumes "\<forall>k. Suc k < length cp \<longrightarrow> cp ! k \<le> cp ! Suc k"
  shows "snd (smoothing cp its count g 0) = 0"
proof (induction its arbitrary: count g)
  case Nil
  then show ?case by simp
next
  case (Cons a its)
  show ?case
  proof (cases "14 < count \<and> count < length cp")
    case True
    then have "Suc (count - 1) < length cp" by simp
    then have "cp ! (count - 1) \<le> cp ! Suc (count - 1)" using assms by blast
    then have "\<not> cp ! count - cp ! (count - 1) < 0" using True by simp
    then show ?thesis using True Cons.IH smoothing_step[of count cp a its g 0] by simp
  next
    case False
    then show ?thesis using Cons.IH smoothing_skip[of count cp a its g 0] by simp
  qed
qed

lemma sum_list_advances_nonneg: "0 \<le> sum_list (advances_of ch)"
  unfolding advances_of_def by (induction ch) auto

lemma sum_list_declines_nonneg: "0 \<le> sum_list (declines_of ch)"
  unfolding declines_of_def by (induction ch) auto

lemma sum_list_declines_zero_iff:
  "sum_list (declines_of ch) = 0 \<longleftrightarrow> (\<forall>x \<in> set ch. 0 \<le> x)"
proof (induction ch)
  case Nil
  then show ?case by (simp add: declines_of_def)
next
  case (Cons x ch)
  have nn: "0 \<le> sum_list (declines_of ch)" by (rule sum_list_declines_nonneg)
  show ?case
  proof (cases "x < 0")
    case True
    then have "sum_list (declines_of (x # ch)) = \<bar>x\<bar> + sum_list (declines_of ch)"
      by (simp add: declines_of_def)
    then have "0 < sum_list (declines_of (x # ch))" using True nn by simp
    then show ?thesis using True by auto
  next
    case False
    then have "sum_list (declines_of (x # ch)) = sum_list (declines_of ch)"
      by (simp add: declines_of_def)
    then show ?thesis using False Cons.IH by auto
  qed
qed

lemma final_averages_nonneg:
  "final_averages cp = (g, l) \<Longrightarrow> 0 \<le> g \<and> 0 \<le> l"
proof -
  assume fa: "final_averages cp = (g, l)"
  let ?ch = "map (\<lambda>k. cp ! k - cp ! (k - 1)) [1..<min (length cp) 15]"
  have "smoothing cp cp (min (length cp) 15) (sum_list (advances_of ?ch) / 14)
          (sum_list (declines_of ?ch) / 14) = (g, l)"
    using fa by (simp only: final_averages_unfold)
  moreover have "0 \<le> sum_list (advances_of ?ch) / 14"
    using sum_list_advances_nonneg[of ?ch] by simp
  moreover have "0 \<le> sum_list (declines_of ?ch) / 14"
    using sum_list_declines_nonneg[of ?ch] by simp
  ultimately show ?thesis using smoothing_nonneg by blast
qed

lemma rsi_value:
  assumes "final_averages cp = (g, l)"
  shows "rsi_of_closing_prices cp =
           (if l = 0 then Inr None else Inr (Some (100 - 100 / (1 + g / l))))"
proof (cases "l = 0")
  case True
  then show ?thesis using assms by (simp add: rsi_of_closing_prices_def)
next
  case False
  have "0 \<le> g" "0 \<le> l" using final_averages_nonneg[OF assms] by simp_all
  then have "0 \<le> g / l" by simp
  then have "1 + g / l \<noteq> 0" by linarith
  then show ?thesis using assms False by (simp add: rsi_of_closing_prices_def py_div_def)
qed

lemma deltas_nonneg_iff:
  "(\<forall>d \<in> set (successive_deltas cp). 0 \<le> d) \<longleftrightarrow> (\<forall>k. Suc k < length cp \<longrightarrow> cp ! k \<le> cp ! Suc k)"
proof
  assume a: "\<forall>d \<in> set (successive_deltas cp). 0 \<le> d"
  show "\<forall>k. Suc k < length cp \<longrightarrow> cp ! k \<le> cp ! Suc k"
  proof (intro allI impI)
    fix k assume k: "Suc k < length cp"
    then have "cp ! Suc k - cp ! (Suc k - 1) \<in> set (successive_deltas cp)"
      unfolding successive_deltas_def by (intro image_eqI[where x = "Suc k"] | simp)+
    then show "cp ! k \<le> cp ! Suc k" using a by fastforce
  qed
next
  assume a: "\<forall>k. Suc k < length cp \<longrightarrow> cp ! k \<le> cp ! Suc k"
  show "\<forall>d \<in> set (successive_deltas cp). 0 \<le> d"
  proof
    fix d assume "d \<in> set (successive_deltas cp)"
    then obtain k where k: "1 \<le> k" "k < length cp" and d: "d = cp ! k - cp ! (k - 1)"
      unfolding successive_deltas_def by auto
    then have "Suc (k - 1) < length cp" by simp
    then have "cp ! (k - 1) \<le> cp ! Suc (k - 1)" using a by blast
    then show "0 \<le> d" using d k by simp
  qed
qed

lemma no_decline_no_loss:
  assumes "\<forall>d \<in> set (successive_deltas cp). 0 \<le> d"
  shows "snd (final_averages cp) = 0"
proof -
  let ?ch = "map (\<lambda>k. cp ! k - cp ! (k - 1)) [1..<min (length cp) 15]"
  have "set ?ch \<subseteq> set (successive_deltas cp)"
    unfolding successive_deltas_def by auto
  then have "\<forall>x \<in> set ?ch. 0 \<le> x" using assms by blast
  then have z: "sum_list (declines_of ?ch) / 14 = 0"
    using sum_list_declines_zero_iff[of ?ch] by simp
  have "\<forall>k. Suc k < length cp \<longrightarrow> cp ! k \<le> cp ! Suc k"
    using assms deltas_nonneg_iff by blast
  then have "snd (smoothing cp cp (min (length cp) 15)
                    (sum_list (advances_of ?ch) / 14) 0) = 0"
    by (rule smoothing_no_loss)
  then show ?thesis by (simp only: final_averages_unfold z)
qed

lemma rsi_never_raises: "rsi_of_closing_prices cp \<noteq> Inl e"
proof -
  obtain g l where fa: "final_averages cp = (g, l)" by (cases "final_averages cp")
  show ?thesis using rsi_value[OF fa] by simp
qed

subsection \<open>The index on the spec's scenario\<close>

text \<open>
  C1, as amended. On the fifteen closes of the scenario the index is defined and equal to
  \<open>2800 / 33\<close> (about 84.85), strictly between 0 and 100. It is greater than the
  threshold 75, so \<open>check_buy_parameters\<close>, given this index, the volume 1000 (threshold
  500) and the ask price 0.001 (threshold 0.0000001), returns false.
\<close>

theorem scenario_rsi:
  "rsi_of_closing_prices scenario_closes = Inr (Some (2800 / 33))
   \<and> (0::rat) < 2800 / 33 \<and> (2800 / 33 :: rat) < 100
   \<and> \<not> (2800 / 33 :: rat) \<le> buy_rsiThreshold scenario_buy_params
   \<and> check_buy_parameters scenario_buy_params (Some (2800 / 33)) (Some 1000) (Some (1 / 1000))
       = Inr False"
  by (simp add: scenario_closes_def scenario_buy_params_def rsi_of_closing_prices_def
      final_averages_def advances_of_def declines_of_def py_div_def check_buy_parameters_def)

text \<open>
  C1 as stated fails: the index of the scenario is \<open>2800 / 33\<close>, and the answer of
  \<open>check_buy_parameters\<close> on it is not true.
\<close>

theorem scenario_counterexample:
  "rsi_of_closing_prices scenario_closes = Inr (Some (2800 / 33))
   \<and> check_buy_parameters scenario_buy_params (Some (2800 / 33)) (Some 1000) (Some (1 / 1000))
       \<noteq> Inr True"
  by (simp add: scenario_closes_def scenario_buy_params_def rsi_of_closing_prices_def
      final_averages_def advances_of_def declines_of_def py_div_def check_buy_parameters_def)

subsection \<open>The sell rule\<close>

text \<open>
  C3. \<open>check_sell_parameters\<close> is true exactly when the index is present, at least
  \<open>sellRsiMin\<close>, and the profit margin exceeds \<open>sellMinProfitMarginMin\<close>, or the profit
  margin exceeds \<open>sellProfitMarginMin\<close>. With the index absent, a profit margin equal to
  \<open>sellProfitMarginMin\<close> gives false and every greater one gives true.
\<close>

theorem check_sell_parameters_iff:
  "(check_sell_parameters sp rsi profit_margin \<longleftrightarrow>
      (\<exists>r. rsi = Some r \<and> r \<ge> sell_rsiThreshold sp
            \<and> profit_margin > minProfitMarginThreshold sp)
      \<or> profit_margin > profitMarginThreshold sp)
   \<and> \<not> check_sell_parameters sp None (profitMarginThreshold sp)
   \<and> (\<forall>m. m > profitMarginThreshold sp \<longrightarrow> check_sell_parameters sp None m)"
  by (cases rsi) (simp_all add: check_sell_parameters_def)

text \<open>The sell rule at the thresholds 75, 1 and 5 of the simulated configuration.\<close>

theorem check_sell_parameters_iff_witness:
  "(6::rat) > profitMarginThreshold (sell_params (sim_env True True True))
   \<and> check_sell_parameters (sell_params (sim_env True True True)) None 6
   \<and> \<not> check_sell_parameters (sell_params (sim_env True True True)) None 5
   \<and> check_sell_parameters (sell_params (sim_env True True True)) (Some 80) 2"
proof -
  have t: "profitMarginThreshold (sell_params (sim_env True True True)) = 5"
    and m: "minProfitMarginThreshold (sell_params (sim_env True True True)) = 1"
    and r: "sell_rsiThreshold (sell_params (sim_env True True True)) = 75"
    by (simp_all add: sim_env_def)
  show ?thesis
    using check_sell_parameters_iff[of "sell_params (sim_env True True True)" None 6]
      check_sell_parameters_iff[of "sell_params (sim_env True True True)" "Some 80" 2]
    by (simp add: t m r)
qed

subsection \<open>Short series\<close>

text \<open>
  C6, as amended. The code makes no check of the length. A series of fewer than 15 closes
  yields the absent result whenever none of its successive deltas is negative, so in
  particular whenever it has at most one close; with a decline it can yield a number.
\<close>

theorem rsi_short_series:
  "length cp < 15 \<Longrightarrow>
   ((\<forall>d \<in> set (successive_deltas cp). 0 \<le> d) \<longrightarrow> rsi_of_closing_prices cp = Inr None)
   \<and> (length cp \<le> 1 \<longrightarrow> rsi_of_closing_prices cp = Inr None)"
proof -
  assume len: "length cp < 15"
  obtain g l where fa: "final_averages cp = (g, l)" by (cases "final_averages cp")
  have a: "rsi_of_closing_prices cp = Inr None"
    if nd: "\<forall>d \<in> set (successive_deltas cp). 0 \<le> d"
  proof -
    have "snd (final_averages cp) = 0" using nd by (rule no_decline_no_loss)
    then have "l = 0" using fa by simp
    then show ?thesis using rsi_value[OF fa] by simp
  qed
  have b: "\<forall>d \<in> set (successive_deltas cp). 0 \<le> d" if "length cp \<le> 1"
  proof -
    have e: "[1..<length cp] = []" using that by simp
    have "successive_deltas cp = []"
      unfolding successive_deltas_def e by (rule list.map(1))
    then show ?thesis by simp
  qed
  show ?thesis using a b by blast
qed

text \<open>Three closes that never fall, and a single close: no index.\<close>

theorem rsi_short_series_witness:
  "length [1, 2, 2 :: rat] < 15 \<and> successive_deltas [1, 2, 2] = [1, 0]
   \<and> rsi_of_closing_prices [1, 2, 2] = Inr None
   \<and> length [7 :: rat] < 15 \<and> length [7 :: rat] \<le> 1
   \<and> rsi_of_closing_prices [7] = Inr None"
proof -
  have len: "length [1, 2, 2 :: rat] < 15" "length [7 :: rat] < 15" by simp_all
  have d: "successive_deltas [1, 2, 2] = [1, 0]"
    by (simp add: successive_deltas_def upt_rec)
  show ?thesis
    using len d rsi_short_series[OF len(1)] rsi_short_series[OF len(2)]
    by simp
qed

text \<open>C6 as stated fails: two closes, the second lower, give the index 0.\<close>

theorem short_series_counterexample:
  "length [2, 1 :: rat] < 15 \<and> rsi_of_closing_prices [2, 1] = Inr (Some 0)"
  by (simp add: rsi_of_closing_prices_def final_averages_def advances_of_def
      declines_of_def py_div_def)

subsection \<open>Series without a decline\<close>

text \<open>
  C7. When no successive delta of the series is negative, the final average loss is
  exactly zero and the result is \<open>None\<close>: the division by the average loss is not
  reached, and no \<open>ZeroDivisionError\<close> is raised.
\<close>

theorem rsi_no_decline:
  "\<forall>d \<in> set (successive_deltas cp). 0 \<le> d \<Longrightarrow>
   snd (final_averages cp) = 0 \<and> rsi_of_closing_prices cp = Inr None"
proof -
  assume a: "\<forall>d \<in> set (successive_deltas cp). 0 \<le> d"
  have z: "snd (final_averages cp) = 0" using a by (rule no_decline_no_loss)
  obtain g l where fa: "final_averages cp = (g, l)" by (cases "final_averages cp")
  then have "l = 0" using z by simp
  then show ?thesis using z rsi_value[OF fa] by simp
qed

text \<open>Eighteen closes that never fall, two of them equal.\<close>

theorem rsi_no_decline_witness:
  "successive_deltas rising_closes = [1, 1, 1, 1, 1, 1, 1, 1, 1, 1, 1, 1, 1, 1, 1, 0, 2]
   \<and> snd (final_averages rising_closes) = 0
   \<and> rsi_of_closing_prices rising_closes = Inr None"
proof -
  have d: "successive_deltas rising_closes = [1, 1, 1, 1, 1, 1, 1, 1, 1, 1, 1, 1, 1, 1, 1, 0, 2]"
    by (simp add: successive_deltas_def rising_closes_def upt_rec)
  have "\<forall>d \<in> set (successive_deltas rising_closes). 0 \<le> d"
    unfolding d by simp
  then show ?thesis using d rsi_no_decline by simp
qed

subsection \<open>Facts about traces and the polling loop\<close>

lemma cancel_calls_append: "cancel_calls (a @ b) = cancel_calls a @ cancel_calls b"
  by (induction a rule: cancel_calls.induct) simp_all

lemma snapshots_append: "snapshots (a @ b) = snapshots a @ snapshots b"
  by (induction a rule: snapshots.induct) simp_all

lemma buy_orders_append: "buy_orders (a @ b) = buy_orders a @ buy_orders b"
  by (induction a rule: buy_orders.induct) simp_all

lemma poll_order_stop:
  "\<not> (clock w - start_time \<le> trade_time_limit \<and> IsOpen order_data) \<Longrightarrow>
   poll_order env order_uuid trade_time_limit start_time order_data w = (order_data, w)"
  by (subst poll_order.simps) (simp only: if_False)

lemma poll_order_step:
  "clock w - start_time \<le> trade_time_limit \<and> IsOpen order_data \<Longrightarrow>
   poll_order env order_uuid trade_time_limit start_time order_data w =
     poll_order env order_uuid trade_time_limit start_time
       (bittrex_get_order env (sleep 10 w) order_uuid)
       (emit (GetOrder order_uuid (bittrex_get_order env (sleep 10 w) order_uuid)) (sleep 10 w))"
  by (subst poll_order.simps) (simp only: if_True query_order_def Let_def prod.case simp_thms)

lemma trace_emit: "trace (emit e w) = trace w @ [e]"
  by (simp add: emit_def)

lemma clock_emit: "clock (emit e w) = clock w"
  by (simp add: emit_def)

lemma database_emit: "database (emit e w) = database w"
  by (simp add: emit_def)

lemma trace_sleep: "trace (sleep d w) = trace w @ [Sleep d]"
  by (simp add: sleep_def emit_def)

lemma clock_sleep: "clock (sleep d w) = clock w + d"
  by (simp add: sleep_def emit_def)

lemma database_sleep: "database (sleep d w) = database w"
  by (simp add: sleep_def emit_def)

lemma last_snapshot_query: "last_snapshot (es @ [GetOrder order_uuid order_data]) = Some order_data"
  by (simp add: last_snapshot_def snapshots_append)

lemma poll_order_cancels:
  "cancel_calls (trace (snd (poll_order env order_uuid trade_time_limit start_time order_data w)))
     = cancel_calls (trace w)"
proof (induction env order_uuid trade_time_limit start_time order_data w rule: poll_order.induct)
  case (1 env order_uuid trade_time_limit start_time order_data w)
  show ?case
  proof (cases "clock w - start_time \<le> trade_time_limit \<and> IsOpen order_data")
    case True
    let ?w1 = "sleep 10 w"
    let ?od = "bittrex_get_order env ?w1 order_uuid"
    let ?w2 = "emit (GetOrder order_uuid ?od) ?w1"
    have q: "(?od, ?w2) = query_order env order_uuid ?w1"
      by (simp only: query_order_def Let_def)
    have "cancel_calls (trace (snd (poll_order env order_uuid trade_time_limit start_time ?od ?w2)))
            = cancel_calls (trace ?w2)"
      by (rule "1.IH"[OF True refl q refl])
    also have "\<dots> = cancel_calls (trace w)"
      by (simp add: trace_emit trace_sleep cancel_calls_append)
    finally show ?thesis by (simp only: poll_order_step[OF True])
  next
    case False
    then have "poll_order env order_uuid trade_time_limit start_time order_data w = (order_data, w)"
      by (rule poll_order_stop)
    then show ?thesis by simp
  qed
qed

lemma poll_order_last_snapshot:
  "last_snapshot (trace w) = Some order_data \<Longrightarrow>
   poll_order env order_uuid trade_time_limit start_time order_data w = (order_data', w') \<Longrightarrow>
   last_snapshot (trace w') = Some order_data'"
proof (induction env order_uuid trade_time_limit start_time order_data w rule: poll_order.induct)
  case (1 env order_uuid trade_time_limit start_time order_data w)
  show ?case
  proof (cases "clock w - start_time \<le> trade_time_limit \<and> IsOpen order_data")
    case True
    let ?w1 = "sleep 10 w"
    let ?od = "bittrex_get_order env ?w1 order_uuid"
    let ?w2 = "emit (GetOrder order_uuid ?od) ?w1"
    have q: "(?od, ?w2) = query_order env order_uuid ?w1"
      by (simp only: query_order_def Let_def)
    have a: "last_snapshot (trace ?w2) = Some ?od"
      by (simp only: trace_emit last_snapshot_query)
    have b: "poll_order env order_uuid trade_time_limit start_time ?od ?w2 = (order_data', w')"
      using "1.prems"(2) by (simp only: poll_order_step[OF True])
    show ?thesis by (rule "1.IH"[OF True refl q refl a b])
  next
    case False
    then have "poll_order env order_uuid trade_time_limit start_time order_data w = (order_data, w)"
      by (rule poll_order_stop)
    then show ?thesis using "1.prems" by simp
  qed
qed

lemma poll_order_clock_upper:
  "clock w - start_time \<le> trade_time_limit + 10 \<Longrightarrow>
   clock (snd (poll_order env order_uuid trade_time_limit start_time order_data w)) - start_time
     \<le> trade_time_limit + 10"
proof (induction env order_uuid trade_time_limit start_time order_data w rule: poll_order.induct)
  case (1 env order_uuid trade_time_limit start_time order_data w)
  show ?case
  proof (cases "clock w - start_time \<le> trade_time_limit \<and> IsOpen order_data")
    case True
    let ?w1 = "sleep 10 w"
    let ?od = "bittrex_get_order env ?w1 order_uuid"
    let ?w2 = "emit (GetOrder order_uuid ?od) ?w1"
    have q: "(?od, ?w2) = query_order env order_uuid ?w1"
      by (simp only: query_order_def Let_def)
    have c: "clock ?w2 - start_time \<le> trade_time_limit + 10"
      using True by (simp add: clock_emit clock_sleep)
    have "clock (snd (poll_order env order_uuid trade_time_limit start_time ?od ?w2)) - start_time
            \<le> trade_time_limit + 10"
      by (rule "1.IH"[OF True refl q refl c])
    then show ?thesis by (simp only: poll_order_step[OF True])
  next
    case False
    then have "poll_order env order_uuid trade_time_limit start_time order_data w = (order_data, w)"
      by (rule poll_order_stop)
    then show ?thesis using "1.prems" by simp
  qed
qed

lemma poll_order_timed_out:
  "\<forall>v. IsOpen (bittrex_get_order env v order_uuid) \<Longrightarrow> IsOpen order_data \<Longrightarrow>
   poll_order env order_uuid trade_time_limit start_time order_data w = (order_data', w') \<Longrightarrow>
   IsOpen order_data' \<and> trade_time_limit < clock w' - start_time"
proof (induction env order_uuid trade_time_limit start_time order_data w rule: poll_order.induct)
  case (1 env order_uuid trade_time_limit start_time order_data w)
  show ?case
  proof (cases "clock w - start_time \<le> trade_time_limit \<and> IsOpen order_data")
    case True
    let ?w1 = "sleep 10 w"
    let ?od = "bittrex_get_order env ?w1 order_uuid"
    let ?w2 = "emit (GetOrder order_uuid ?od) ?w1"
    have q: "(?od, ?w2) = query_order env order_uuid ?w1"
      by (simp only: query_order_def Let_def)
    have o: "IsOpen ?od" using "1.prems"(1) by blast
    have b: "poll_order env order_uuid trade_time_limit start_time ?od ?w2 = (order_data', w')"
      using "1.prems"(3) by (simp only: poll_order_step[OF True])
    show ?thesis by (rule "1.IH"[OF True refl q refl "1.prems"(1) o b])
  next
    case False
    then have "poll_order env order_uuid trade_time_limit start_time order_data w = (order_data, w)"
      by (rule poll_order_stop)
    then have "order_data' = order_data" "w' = w" using "1.prems"(3) by simp_all
    then show ?thesis using False "1.prems"(2) by simp
  qed
qed

subsection \<open>The order lifecycle\<close>

text \<open>
  C4. On the simulated clock, when every status query reports the order open and the
  time limit is not negative, \<open>get_order\<close> leaves its loop after more than the time limit
  and at most the time limit plus one poll interval of 10, issues exactly one cancel
  request, and returns the snapshot retrieved last. When the first status query reports
  the order not open, \<open>get_order\<close> returns that snapshot after this single query and
  issues no cancel request.
\<close>

theorem get_order_timeout_and_fill:
  "((\<forall>v. IsOpen (bittrex_get_order env v order_uuid)) \<and> 0 \<le> trade_time_limit \<longrightarrow>
      (case get_order env order_uuid trade_time_limit w of
         (order_data, w') \<Rightarrow>
           trade_time_limit < clock w' - clock w
           \<and> clock w' - clock w \<le> trade_time_limit + 10
           \<and> cancel_calls (trace w') = cancel_calls (trace w) @ [order_uuid]
           \<and> last_snapshot (trace w') = Some order_data))
   \<and> (\<not> IsOpen (bittrex_get_order env w order_uuid) \<longrightarrow>
        get_order env order_uuid trade_time_limit w =
          (bittrex_get_order env w order_uuid,
           emit (GetOrder order_uuid (bittrex_get_order env w order_uuid)) w)
        \<and> cancel_calls (trace (snd (get_order env order_uuid trade_time_limit w)))
            = cancel_calls (trace w))"
proof (intro conjI impI)
  let ?od0 = "bittrex_get_order env w order_uuid"
  let ?w1 = "emit (GetOrder order_uuid ?od0) w"
  assume closed: "\<not> IsOpen ?od0"
  then have p: "poll_order env order_uuid trade_time_limit (clock w) ?od0 ?w1 = (?od0, ?w1)"
    by (simp add: poll_order_stop)
  show g: "get_order env order_uuid trade_time_limit w = (?od0, ?w1)"
    using closed p by (simp add: get_order_def query_order_def Let_def)
  show "cancel_calls (trace (snd (get_order env order_uuid trade_time_limit w)))
          = cancel_calls (trace w)"
    by (simp add: g trace_emit cancel_calls_append)
next
  let ?od0 = "bittrex_get_order env w order_uuid"
  let ?w1 = "emit (GetOrder order_uuid ?od0) w"
  assume a: "(\<forall>v. IsOpen (bittrex_get_order env v order_uuid)) \<and> 0 \<le> trade_time_limit"
  obtain od w2 where p: "poll_order env order_uuid trade_time_limit (clock w) ?od0 ?w1 = (od, w2)"
    by (cases "poll_order env order_uuid trade_time_limit (clock w) ?od0 ?w1")
  have o0: "IsOpen ?od0" using a by blast
  have t: "IsOpen od" "trade_time_limit < clock w2 - clock w"
    using poll_order_timed_out[OF _ o0 p] a by simp_all
  have "clock ?w1 - clock w \<le> trade_time_limit + 10" using a by (simp add: clock_emit)
  then have u: "clock w2 - clock w \<le> trade_time_limit + 10"
    using poll_order_clock_upper[of ?w1 "clock w" trade_time_limit env order_uuid ?od0] p by simp
  have c: "cancel_calls (trace w2) = cancel_calls (trace w)"
    using poll_order_cancels[of env order_uuid trade_time_limit "clock w" ?od0 ?w1] p
    by (simp add: trace_emit cancel_calls_append)
  have "last_snapshot (trace ?w1) = Some ?od0"
    by (simp only: trace_emit last_snapshot_query)
  then have s: "last_snapshot (trace w2) = Some od"
    using poll_order_last_snapshot p by blast
  let ?w5 = "emit (Cancel order_uuid)
               (emit (LoggerError (messenger_print_order_error env order_uuid trade_time_limit
                                     (Exchange od)))
                  (emit (PrintOrderError order_uuid trade_time_limit (Exchange od)) w2))"
  have g: "get_order env order_uuid trade_time_limit w = (od, ?w5)"
    using p t(1) by (simp add: get_order_def query_order_def Let_def)
  have s5: "last_snapshot (trace ?w5) = Some od"
    using s by (simp add: last_snapshot_def trace_emit snapshots_append split: if_splits)
  show "case get_order env order_uuid trade_time_limit w of
          (order_data, w') \<Rightarrow>
            trade_time_limit < clock w' - clock w
            \<and> clock w' - clock w \<le> trade_time_limit + 10
            \<and> cancel_calls (trace w') = cancel_calls (trace w) @ [order_uuid]
            \<and> last_snapshot (trace w') = Some order_data"
    using t(2) u c s5 by (simp add: g clock_emit trace_emit cancel_calls_append)
qed

text \<open>
  An order that stays open, with a time limit of 25: the loop ends at time 30. An order
  that is closed at the first query.
\<close>

theorem get_order_timeout_and_fill_witness:
  "(0::rat) \<le> 25
   \<and> IsOpen (bittrex_get_order (sim_env True True True) empty_world ''BTC-LTC'')
   \<and> 25 < clock (snd (get_order (sim_env True True True) ''BTC-LTC'' 25 empty_world))
   \<and> clock (snd (get_order (sim_env True True True) ''BTC-LTC'' 25 empty_world)) \<le> 35
   \<and> cancel_calls (trace (snd (get_order (sim_env True True True) ''BTC-LTC'' 25 empty_world)))
       = [''BTC-LTC'']
   \<and> last_snapshot (trace (snd (get_order (sim_env True True True) ''BTC-LTC'' 25 empty_world)))
       = Some (fst (get_order (sim_env True True True) ''BTC-LTC'' 25 empty_world))
   \<and> \<not> IsOpen (bittrex_get_order (sim_env True True False) empty_world ''BTC-LTC'')
   \<and> get_order (sim_env True True False) ''BTC-LTC'' 25 empty_world
       = (\<lparr>IsOpen = False, Exchange = ''BTC-LTC'', Quantity = 10\<rparr>,
          emit (GetOrder ''BTC-LTC'' \<lparr>IsOpen = False, Exchange = ''BTC-LTC'', Quantity = 10\<rparr>)
            empty_world)
   \<and> cancel_calls (trace (snd (get_order (sim_env True True False) ''BTC-LTC'' 25 empty_world)))
       = []"
proof -
  have o: "\<And>v. bittrex_get_order (sim_env True True True) v ''BTC-LTC''
                 = \<lparr>IsOpen = True, Exchange = ''BTC-LTC'', Quantity = 10\<rparr>"
    by (simp add: sim_env_def)
  have c: "bittrex_get_order (sim_env True True False) empty_world ''BTC-LTC''
             = \<lparr>IsOpen = False, Exchange = ''BTC-LTC'', Quantity = 10\<rparr>"
    by (simp add: sim_env_def)
  have e: "clock empty_world = 0" "trace empty_world = []"
    by (simp_all add: empty_world_def)
  show ?thesis
    using get_order_timeout_and_fill[of "sim_env True True True" "''BTC-LTC''" 25 empty_world]
      get_order_timeout_and_fill[of "sim_env True True False" "''BTC-LTC''" 25 empty_world]
    by (simp add: o c e case_prod_unfold trace_emit)
qed

subsection \<open>No second buy for a tracked market\<close>

text \<open>
  C8. For a market whose coin pair is tracked in the ledger, \<open>buy_strategy\<close> returns at
  once and leaves the world as it is: no call to the exchange, no order. The same holds
  for any number of repeated invocations.
\<close>

theorem buy_strategy_tracked:
  "coin_pair \<in> set (trackedCoinPairs (database w)) \<Longrightarrow>
   buy_strategy env coin_pair w = (Inr (), w)
   \<and> ((\<lambda>v. snd (buy_strategy env coin_pair v)) ^^ n) w = w
   \<and> buy_orders (trace (((\<lambda>v. snd (buy_strategy env coin_pair v)) ^^ n) w))
       = buy_orders (trace w)"
proof -
  assume t: "coin_pair \<in> set (trackedCoinPairs (database w))"
  have one: "buy_strategy env coin_pair w = (Inr (), w)"
    using t by (simp add: buy_strategy_def)
  have many: "((\<lambda>v. snd (buy_strategy env coin_pair v)) ^^ n) w = w"
  proof (induction n)
    case 0
    show ?case by simp
  next
    case (Suc n)
    then show ?case using one by simp
  qed
  show ?thesis using one many by simp
qed

text \<open>Three invocations for a market that is held.\<close>

theorem buy_strategy_tracked_witness:
  "''BTC-LTC'' \<in> set (trackedCoinPairs (database holding_world))
   \<and> buy_strategy (sim_env True True False) ''BTC-LTC'' holding_world = (Inr (), holding_world)
   \<and> ((\<lambda>v. snd (buy_strategy (sim_env True True False) ''BTC-LTC'' v)) ^^ 3) holding_world
       = holding_world"
proof -
  have h: "''BTC-LTC'' \<in> set (trackedCoinPairs (database holding_world))"
    by (simp add: holding_world_def)
  show ?thesis
    using h buy_strategy_tracked[OF h, of "sim_env True True False" 3] by simp
qed

subsection \<open>Placement failure\<close>

text \<open>
  C9. When the exchange answers an order placement with \<open>success = false\<close>, \<open>buy\<close> (and
  \<open>sell\<close>) logs the placement error and does nothing more: the trace gains the placement
  call and the log entry only (for \<open>sell\<close>, after the read of the open trade), so there is
  no write to the ledger, no status query, no cancel request and no notification, and
  the ledger is unchanged.
\<close>

theorem placement_failure:
  "(price = Some p \<and> p \<noteq> 0
      \<and> \<not> success (bittrex_buy_limit env w coin_pair (btc_quantity / p) p) \<longrightarrow>
      buy env coin_pair btc_quantity price stats trade_time_limit w =
        (Inr (), w\<lparr>trace := trace w @
                     [BuyLimit coin_pair (btc_quantity / p) p,
                      LoggerError (''Failed to buy on '' @ coin_pair @ '' market.'')]\<rparr>))
   \<and> (\<not> success (bittrex_sell_limit env (emit (GetOpenTrade coin_pair) w) coin_pair
                    (quantity (database_get_open_trade env (database w) coin_pair)) sell_price) \<longrightarrow>
      sell env coin_pair sell_price sell_stats trade_time_limit w =
        w\<lparr>trace := trace w @
             [GetOpenTrade coin_pair,
              SellLimit coin_pair (quantity (database_get_open_trade env (database w) coin_pair))
                sell_price,
              LoggerError (''Failed to sell on '' @ coin_pair @ '' market.'')]\<rparr>)"
  by (simp add: buy_def sell_def py_div_def emit_def Let_def)

text \<open>A refused buy on an empty ledger and a refused sell of a held position.\<close>

theorem placement_failure_witness:
  "\<not> success (bittrex_buy_limit (sim_env True False False) empty_world ''BTC-LTC'' (1 / 2) 2)
   \<and> buy (sim_env True False False) ''BTC-LTC'' 1 (Some 2)
        \<lparr>stats_rsi = Some 0, stats_24HrVolume = Some 1000\<rparr> 2 empty_world
       = (Inr (), \<lparr>clock = 0,
                   trace = [BuyLimit ''BTC-LTC'' (1 / 2) 2,
                            LoggerError ''Failed to buy on BTC-LTC market.''],
                   database = \<lparr>trackedCoinPairs = [], positions = []\<rparr>\<rparr>)
   \<and> sell (sim_env True False False) ''BTC-LTC'' (Some 2)
        \<lparr>sell_stats_rsi = Some 80, stats_profitMargin = 10\<rparr> 2 holding_world
       = \<lparr>clock = 0,
          trace = [GetOpenTrade ''BTC-LTC'', SellLimit ''BTC-LTC'' 10 (Some 2),
                   LoggerError ''Failed to sell on BTC-LTC market.''],
          database = \<lparr>trackedCoinPairs = [''BTC-LTC''],
                      positions = [\<lparr>coinPair = ''BTC-LTC'', quantity = 10\<rparr>]\<rparr>\<rparr>"
proof -
  have b: "\<And>v c a q. success (bittrex_buy_limit (sim_env True False False) v c a q) = False"
    and s: "\<And>v c a q. success (bittrex_sell_limit (sim_env True False False) v c a q) = False"
    and g: "database_get_open_trade (sim_env True False False) = get_open_trade"
    by (simp_all add: sim_env_def)
  have q: "quantity (get_open_trade (database holding_world) ''BTC-LTC'') = 10"
    by (simp add: get_open_trade_def holding_world_def)
  have bought: "buy (sim_env True False False) ''BTC-LTC'' 1 (Some 2)
                  \<lparr>stats_rsi = Some 0, stats_24HrVolume = Some 1000\<rparr> 2 empty_world
                = (Inr (), empty_world\<lparr>trace := trace empty_world @
                     [BuyLimit ''BTC-LTC'' (1 / 2) 2,
                      LoggerError (''Failed to buy on '' @ ''BTC-LTC'' @ '' market.'')]\<rparr>)"
    using placement_failure[of "Some 2" 2 "sim_env True False False" empty_world "''BTC-LTC''" 1
        "\<lparr>stats_rsi = Some 0, stats_24HrVolume = Some 1000\<rparr>" 2]
    by (simp add: b)
  have sold: "sell (sim_env True False False) ''BTC-LTC'' (Some 2)
                \<lparr>sell_stats_rsi = Some 80, stats_profitMargin = 10\<rparr> 2 holding_world
              = holding_world\<lparr>trace := trace holding_world @
                   [GetOpenTrade ''BTC-LTC'', SellLimit ''BTC-LTC'' 10 (Some 2),
                    LoggerError (''Failed to sell on '' @ ''BTC-LTC'' @ '' market.'')]\<rparr>"
    using placement_failure[of _ _ "sim_env True False False" holding_world "''BTC-LTC''" _ _ 2
        "Some 2" "\<lparr>sell_stats_rsi = Some 80, stats_profitMargin = 10\<rparr>"]
    by (simp add: s g q)
  show ?thesis
    unfolding bought sold by (simp add: b empty_world_def holding_world_def)
qed

subsection \<open>The guard of the buy phase\<close>

text \<open>
  Once an invocation of \<open>buy_strategy\<close> has raised, the rest of the list is not visited;
  otherwise the loop of \<open>analyse_buys\<close> hands each market to \<open>buy_strategy\<close>, on the world
  the invocation before it has left.
\<close>

lemma fold_after_exception:
  "fold (\<lambda>coin_pair (r, v). case r of Inl e \<Rightarrow> (Inl e, v) | Inr _ \<Rightarrow> buy_strategy env coin_pair v)
     pairs (Inl e, w) = (Inl e, w)"
  by (induction pairs) simp_all

lemma buy_each_fold:
  "buy_each env pairs w =
     fold (\<lambda>coin_pair (r, v). case r of Inl e \<Rightarrow> (Inl e, v) | Inr _ \<Rightarrow> buy_strategy env coin_pair v)
       pairs (Inr (), w)"
proof (induction pairs arbitrary: w)
  case Nil
  show ?case by simp
next
  case (Cons c rest)
  obtain r w1 where b: "buy_strategy env c w = (r, w1)" by (cases "buy_strategy env c w")
  show ?case
  proof (cases r)
    case (Inl e)
    then show ?thesis using b by (simp add: fold_after_exception)
  next
    case (Inr u)
    then show ?thesis using b Cons.IH[of w1] by simp
  qed
qed

text \<open>
  C10, as amended. \<open>analyse_buys\<close> tests once, before its loop, whether the ledger of
  tracked coin pairs is empty. When it is not, no market is evaluated and the world is
  left as it is. When it is, \<open>buy_strategy\<close> is invoked for the markets of the list in
  order, each on the world left by the invocation before it, until one raises; the
  ledger as a whole is not tested again, so a position opened for an earlier market does
  not keep \<open>buy_strategy\<close> from a later one.
\<close>

theorem analyse_buys_guard:
  "(trackedCoinPairs (database w) \<noteq> [] \<longrightarrow> analyse_buys env btc_coin_pairs w = (Inr (), w))
   \<and> (trackedCoinPairs (database w) = [] \<longrightarrow>
        analyse_buys env btc_coin_pairs w =
          fold (\<lambda>coin_pair (r, v).
                  case r of Inl e \<Rightarrow> (Inl e, v) | Inr _ \<Rightarrow> buy_strategy env coin_pair v)
            btc_coin_pairs (Inr (), w))"
  by (simp add: analyse_buys_def buy_each_fold)

text \<open>
  The guard on a ledger that holds a position, and on an empty one with a single market,
  where the buy phase is the one invocation of \<open>buy_strategy\<close>.
\<close>

theorem analyse_buys_guard_witness:
  "trackedCoinPairs (database holding_world) \<noteq> []
   \<and> analyse_buys (sim_env True True False) [''BTC-LTC'', ''BTC-ETH''] holding_world
       = (Inr (), holding_world)
   \<and> trackedCoinPairs (database empty_world) = []
   \<and> analyse_buys (sim_env True True False) [''BTC-LTC''] empty_world
       = buy_strategy (sim_env True True False) ''BTC-LTC'' empty_world"
proof -
  have h: "trackedCoinPairs (database holding_world) \<noteq> []"
    by (simp add: holding_world_def)
  have e: "trackedCoinPairs (database empty_world) = []"
    by (simp add: empty_world_def)
  show ?thesis
    using h e
      analyse_buys_guard[of holding_world "sim_env True True False" "[''BTC-LTC'', ''BTC-ETH'']"]
      analyse_buys_guard[of empty_world "sim_env True True False" "[''BTC-LTC'']"]
    by simp
qed

text \<open>
  C10 as stated fails: with an empty ledger and two markets that both pass the buy rule,
  the first buy opens a position, \<open>buy_strategy\<close> is then invoked for the second market
  while that position is open, and the cycle ends with two buy orders placed and two
  markets tracked.
\<close>

theorem two_positions_counterexample:
  "trackedCoinPairs (database empty_world) = []
   \<and> trackedCoinPairs (database (snd (buy_strategy (sim_env True True False) ''BTC-LTC''
                                          empty_world))) = [''BTC-LTC'']
   \<and> analyse_buys (sim_env True True False) [''BTC-LTC'', ''BTC-ETH''] empty_world
       = buy_strategy (sim_env True True False) ''BTC-ETH''
           (snd (buy_strategy (sim_env True True False) ''BTC-LTC'' empty_world))
   \<and> buy_orders (trace (snd (analyse_buys (sim_env True True False) [''BTC-LTC'', ''BTC-ETH'']
                                 empty_world))) = [''BTC-LTC'', ''BTC-ETH'']
   \<and> trackedCoinPairs (database (snd (analyse_buys (sim_env True True False)
                                          [''BTC-LTC'', ''BTC-ETH''] empty_world)))
       = [''BTC-LTC'', ''BTC-ETH'']"
  by code_simp

subsection \<open>Exceptions of the main loop\<close>

text \<open>
  C2, as amended. When the body of a cycle raises an exception, an instance of
  \<open>ConnectionError\<close>, of \<open>JSONDecodeError\<close> or of \<open>TypeError\<close> is logged and the loop goes on
  with the next cycle; every other instance of \<open>Exception\<close> (\<open>KeyError\<close>, \<open>ValueError\<close>, any
  unclassified one) is logged and the process exits.
\<close>

theorem exception_classification:
  "try_block env analyse_sells btc_coin_pairs w = (Inl e, w1) \<Longrightarrow>
   (isinstance e ConnectionError \<or> isinstance e JSONDecodeError \<or> isinstance e TypeError \<longrightarrow>
      (\<exists>label. main_cycle env analyse_sells btc_coin_pairs w =
         (Continue, emit (LoggerException e) (emit (PrintExceptionError label) w1))))
   \<and> (isinstance e Exception \<and> \<not> isinstance e ConnectionError
        \<and> \<not> isinstance e JSONDecodeError \<and> \<not> isinstance e TypeError \<longrightarrow>
      (\<exists>label logged. main_cycle env analyse_sells btc_coin_pairs w =
         (Exit, emit (LoggerException logged) (emit (PrintExceptionError label) w1))))"
proof -
  assume t: "try_block env analyse_sells btc_coin_pairs w = (Inl e, w1)"
  have m: "main_cycle env analyse_sells btc_coin_pairs w = handle_exception e w1"
    using t by (simp add: main_cycle_def)
  show ?thesis unfolding m handle_exception_def by auto
qed

text \<open>
  A cycle in which the market summary cannot be fetched raises \<open>TypeError\<close> and the loop
  goes on; a cycle whose sell phase raises \<open>KeyError\<close> ends the process.
\<close>

theorem exception_classification_witness:
  "try_block (sim_env False True False) no_sells [''BTC-LTC''] empty_world
     = (Inl TypeError,
        \<lparr>clock = 0,
         trace =
           [GetHistoricalData ''BTC-LTC'' 42 ''fiveMin'',
            GetMarketSummary ''BTC-LTC'',
            LoggerError ''Failed to fetch Bittrex market summary for the BTC-LTC market'',
            GetMarketSummary ''BTC-LTC'',
            LoggerError ''Failed to fetch Bittrex market summary for the BTC-LTC market''],
         database = \<lparr>trackedCoinPairs = [], positions = []\<rparr>\<rparr>)
   \<and> isinstance TypeError TypeError
   \<and> fst (main_cycle (sim_env False True False) no_sells [''BTC-LTC''] empty_world) = Continue
   \<and> try_block (sim_env True True False) (raising_sells KeyError) [] empty_world
       = (Inl KeyError, empty_world)
   \<and> isinstance KeyError Exception \<and> \<not> isinstance KeyError ConnectionError
   \<and> \<not> isinstance KeyError JSONDecodeError \<and> \<not> isinstance KeyError TypeError
   \<and> fst (main_cycle (sim_env True True False) (raising_sells KeyError) [] empty_world) = Exit"
proof -
  have t: "try_block (sim_env False True False) no_sells [''BTC-LTC''] empty_world
     = (Inl TypeError,
        \<lparr>clock = 0,
         trace =
           [GetHistoricalData ''BTC-LTC'' 42 ''fiveMin'',
            GetMarketSummary ''BTC-LTC'',
            LoggerError ''Failed to fetch Bittrex market summary for the BTC-LTC market'',
            GetMarketSummary ''BTC-LTC'',
            LoggerError ''Failed to fetch Bittrex market summary for the BTC-LTC market''],
         database = \<lparr>trackedCoinPairs = [], positions = []\<rparr>\<rparr>)"
    by code_simp
  have k: "try_block (sim_env True True False) (raising_sells KeyError) [] empty_world
             = (Inl KeyError, empty_world)"
    by (simp add: try_block_def analyse_buys_def raising_sells_def empty_world_def)
  have i: "isinstance TypeError TypeError" "isinstance KeyError Exception"
    "\<not> isinstance KeyError ConnectionError" "\<not> isinstance KeyError JSONDecodeError"
    "\<not> isinstance KeyError TypeError"
    by (simp_all add: isinstance_def)
  have c: "fst (main_cycle (sim_env False True False) no_sells [''BTC-LTC''] empty_world) = Continue"
    using exception_classification[OF t] i by auto
  have x: "fst (main_cycle (sim_env True True False) (raising_sells KeyError) [] empty_world) = Exit"
    using exception_classification[OF k] i by auto
  show ?thesis using t k i c x by simp
qed

text \<open>
  C2 as stated fails for \<open>TypeError\<close>: the cycle that raises it is logged and answered
  with the next iteration, not with an exit.
\<close>

theorem type_error_counterexample:
  "fst (try_block (sim_env False True False) no_sells [''BTC-LTC''] empty_world) = Inl TypeError
   \<and> main_cycle (sim_env False True False) no_sells [''BTC-LTC''] empty_world
       = (Continue,
          \<lparr>clock = 0,
           trace =
             [GetHistoricalData ''BTC-LTC'' 42 ''fiveMin'',
              GetMarketSummary ''BTC-LTC'',
              LoggerError ''Failed to fetch Bittrex market summary for the BTC-LTC market'',
              GetMarketSummary ''BTC-LTC'',
              LoggerError ''Failed to fetch Bittrex market summary for the BTC-LTC market'',
              PrintExceptionError ''typeError'', LoggerException TypeError],
           database = \<lparr>trackedCoinPairs = [], positions = []\<rparr>\<rparr>)"
  by code_simp

end
